theory Spec2Isabelle
  imports Complex_Main
begin

section \<open>Data model\<close>

text \<open>
  The three mongoose schemas (User, Event, Achievement) as records. Only the fields
  that the participation and achievement controllers read or write are kept; titles,
  descriptions, departments, credentials and the automatic timestamps play no part in
  them. A document's \<open>_id\<close> is the key under which the collection holds it; dates are
  milliseconds as integers.
\<close>

type_synonym date = int

subsection \<open>ObjectIds and the id strings of a request\<close>

text \<open>
  An ObjectId is identified with its \<open>toString()\<close> form, the 24 lower-case hexadecimal
  digits; every id stored in a document, and \<open>req.user.id\<close> (the id of the user document
  that the authentication middleware loaded), is of this form. The id in the URL
  (\<open>req.params.id\<close>) and the \<open>userId\<close> of a request body are arbitrary strings:
  \<open>findById\<close> and the assignment to a schema path of type ObjectId cast them. The
  cast accepts the 24-digit hexadecimal form in either case; a string of any other form
  is taken to be refused with a \<open>CastError\<close>. Where the controllers compare
  \<open>x.toString()\<close> with such a string, they compare with the string as it was sent.
\<close>

type_synonym objectId = string

definition isHexDigit :: "char \<Rightarrow> bool" where
  "isHexDigit c = (c \<in> set ''0123456789abcdefABCDEF'')"

definition toLowerHex :: "char \<Rightarrow> char" where
  "toLowerHex c =
     (if c = CHR ''A'' then CHR ''a'' else if c = CHR ''B'' then CHR ''b''
      else if c = CHR ''C'' then CHR ''c'' else if c = CHR ''D'' then CHR ''d''
      else if c = CHR ''E'' then CHR ''e'' else if c = CHR ''F'' then CHR ''f'' else c)"

definition castObjectId :: "string \<Rightarrow> objectId option" where
  "castObjectId s =
     (if length s = 24 \<and> list_all isHexDigit s then Some (map toLowerHex s) else None)"

subsection \<open>Numbers\<close>


subsection \<open>Documents\<close>

datatype status = Upcoming | Ongoing | Completed | Cancelled

text \<open>Embedded sub-document of \<open>Event.participants\<close>.\<close>

record participant =
  p_userId :: objectId
  p_pointsEarned :: int
  p_participatedAt :: date

record event =
  ev_points :: int
  ev_date :: date
  ev_status :: status
  participants :: "participant list"
  maxParticipants :: "int option"
  ev_isActive :: bool

text \<open>Embedded sub-documents of \<open>User.achievements\<close> and \<open>User.eventsParticipated\<close>.\<close>

record userAchievement =
  achievementId :: objectId
  earnedAt :: date
  ua_points :: int

record participation =
  eventId :: objectId
  pointsEarned :: int
  participatedAt :: date

record user =
  totalPoints :: int
  level :: int
  achievements :: "userAchievement list"
  eventsParticipated :: "participation list"

datatype reqType = Points | Events | Streak | Custom

record requirements =
  req_type :: reqType
  req_value :: int

record achievement =
  a_id :: objectId
  a_points :: int
  a_requirements :: requirements
  a_isActive :: bool

text \<open>
  The database: the Event and User collections as maps from \<open>_id\<close> to document, the
  Achievement collection as a list in the order \<open>Achievement.find\<close> returns it.
\<close>

record db =
  events :: "objectId \<rightharpoonup> event"
  users :: "objectId \<rightharpoonup> user"
  achievementDocs :: "achievement list"

text \<open>
  \<open>AppError message statusCode\<close> is the controllers' own error; \<open>TypeError\<close> is what
  JavaScript throws when a property of \<open>null\<close> is read (a \<open>findById\<close> that found
  nothing and was not checked); \<open>CastError\<close> is what mongoose throws for an id string
  that is not an ObjectId.
\<close>

datatype error = AppError string nat | TypeError | CastError

section \<open>Model methods\<close>

text \<open>\<open>userSchema.methods.calculateLevel\<close>: \<open>Math.floor(this.totalPoints / 200) + 1\<close>.\<close>

definition calculateLevel :: "user \<Rightarrow> int" where
  "calculateLevel u = \<lfloor>real_of_int (totalPoints u) / 200\<rfloor> + 1"

text \<open>
  \<open>eventSchema.methods.canParticipate\<close>. The capacity test is
  \<open>this.maxParticipants && this.participants.length >= this.maxParticipants\<close>:
  \<open>null\<close> and \<open>0\<close> are both falsy.
\<close>

definition canParticipate :: "event \<Rightarrow> objectId \<Rightarrow> bool" where
  "canParticipate e userId =
     (if \<not> ev_isActive e \<or> ev_status e = Completed \<or> ev_status e = Cancelled then False
      else
        let isParticipating = list_ex (\<lambda>p. p_userId p = userId) (participants e)
        in if isParticipating then False
           else if (case maxParticipants e of
                      None \<Rightarrow> False
                    | Some m \<Rightarrow> m \<noteq> 0 \<and> m \<le> int (length (participants e)))
                then False
                else True)"

text \<open>The \<open>pre('save')\<close> hook of the Event schema, run by every \<open>event.save()\<close>.\<close>

definition preSave :: "date \<Rightarrow> event \<Rightarrow> event" where
  "preSave now e =
     (if ev_status e = Upcoming \<and> ev_date e \<le> now then e\<lparr>ev_status := Completed\<rparr> else e)"

text \<open>\<open>achievementSchema.methods.checkEligibility\<close>.\<close>

definition checkEligibility :: "achievement \<Rightarrow> user \<Rightarrow> bool" where
  "checkEligibility a u =
     (if \<not> a_isActive a then False
      else
        (case req_type (a_requirements a) of
           Points \<Rightarrow> req_value (a_requirements a) \<le> totalPoints u
         | Events \<Rightarrow> req_value (a_requirements a) \<le> int (length (eventsParticipated u))
         | Streak \<Rightarrow> False
         | Custom \<Rightarrow> False))"

section \<open>Controllers\<close>

text \<open>\<open>Array.prototype.findIndex\<close>; \<open>None\<close> stands for the result \<open>-1\<close>.\<close>

fun findIndex :: "('a \<Rightarrow> bool) \<Rightarrow> 'a list \<Rightarrow> nat option" where
  "findIndex P [] = None"
| "findIndex P (x # xs) =
     (if P x then Some 0 else map_option Suc (findIndex P xs))"

text \<open>\<open>splice(i, 1)\<close>: the list without its element at index \<open>i\<close>.\<close>

definition splice1 :: "nat \<Rightarrow> 'a list \<Rightarrow> 'a list" where
  "splice1 i xs = take i xs @ drop (Suc i) xs"

text \<open>
  Every controller takes the current time and the database, and returns the response
  or the error together with the database as the request leaves it: a document changes
  in the database only where the source calls \<open>save()\<close>, so what was saved before an
  exception stays saved.
\<close>

text \<open>
  \<open>participateInEvent\<close> (Join) with the URL's id string and \<open>req.user.id\<close>; the
  response carries \<open>pointsEarned\<close>.
\<close>

definition participateInEvent ::
  "date \<Rightarrow> db \<Rightarrow> string \<Rightarrow> objectId \<Rightarrow> (error + int) \<times> db" where
  "participateInEvent now d paramsId uid =
     (case castObjectId paramsId of
        None \<Rightarrow> (Inl CastError, d)
      | Some eid \<Rightarrow>
     (case events d eid of
        None \<Rightarrow> (Inl (AppError ''Event not found'' 404), d)
      | Some ev \<Rightarrow>
          if \<not> canParticipate ev uid
          then (Inl (AppError ''Cannot participate in this event'' 400), d)
          else
            let ev1 = ev\<lparr>participants := participants ev @
                        [\<lparr>p_userId = uid, p_pointsEarned = ev_points ev,
                          p_participatedAt = now\<rparr>]\<rparr>;
                ev2 = preSave now ev1;
                d1 = d\<lparr>events := (events d)(eid \<mapsto> ev2)\<rparr>
            in (case users d1 uid of
                  None \<Rightarrow> (Inl TypeError, d1)
                | Some u \<Rightarrow>
                    let u1 = u\<lparr>totalPoints := totalPoints u + ev_points ev2\<rparr>;
                        u2 = u1\<lparr>level := calculateLevel u1\<rparr>;
                        u3 = u2\<lparr>eventsParticipated := eventsParticipated u2 @
                               [\<lparr>eventId = eid, pointsEarned = ev_points ev2,
                                 participatedAt = now\<rparr>]\<rparr>
                    in (Inr (ev_points ev2), d1\<lparr>users := (users d1)(uid \<mapsto> u3)\<rparr>))))"

text \<open>
  \<open>removeParticipation\<close> (Leave); the response carries \<open>pointsRemoved\<close>. The filter
  on \<open>eventsParticipated\<close> compares \<open>event.eventId.toString()\<close> with \<open>req.params.id\<close>,
  the string of the URL.
\<close>

definition removeParticipation ::
  "date \<Rightarrow> db \<Rightarrow> string \<Rightarrow> objectId \<Rightarrow> (error + int) \<times> db" where
  "removeParticipation now d paramsId uid =
     (case castObjectId paramsId of
        None \<Rightarrow> (Inl CastError, d)
      | Some eid \<Rightarrow>
     (case events d eid of
        None \<Rightarrow> (Inl (AppError ''Event not found'' 404), d)
      | Some ev \<Rightarrow>
          (case findIndex (\<lambda>p. p_userId p = uid) (participants ev) of
             None \<Rightarrow> (Inl (AppError ''User is not participating in this event'' 400), d)
           | Some participationIndex \<Rightarrow>
               let part = participants ev ! participationIndex;
                   ev1 = ev\<lparr>participants := splice1 participationIndex (participants ev)\<rparr>;
                   d1 = d\<lparr>events := (events d)(eid \<mapsto> preSave now ev1)\<rparr>
               in (case users d1 uid of
                     None \<Rightarrow> (Inl TypeError, d1)
                   | Some u \<Rightarrow>
                       let u1 = u\<lparr>totalPoints := totalPoints u - p_pointsEarned part\<rparr>;
                           u2 = u1\<lparr>level := calculateLevel u1\<rparr>;
                           u3 = u2\<lparr>eventsParticipated :=
                                  filter (\<lambda>e. eventId e \<noteq> paramsId) (eventsParticipated u2)\<rparr>
                       in (Inr (p_pointsEarned part),
                           d1\<lparr>users := (users d1)(uid \<mapsto> u3)\<rparr>)))))"

text \<open>
  The achievement loop of \<open>awardPointsForEvent\<close>: the user document and the list
  \<open>newAchievements\<close> are the loop's state.
\<close>

fun awardLoop ::
  "date \<Rightarrow> achievement list \<Rightarrow> user \<times> achievement list \<Rightarrow> user \<times> achievement list" where
  "awardLoop now [] (u, newAchievements) = (u, newAchievements)"
| "awardLoop now (a # rest) (u, newAchievements) =
     (let hasAchievement = list_ex (\<lambda>ua. achievementId ua = a_id a) (achievements u)
      in if \<not> hasAchievement \<and> checkEligibility a u
         then awardLoop now rest
                (u\<lparr>achievements := achievements u @
                     [\<lparr>achievementId = a_id a, earnedAt = now, ua_points = a_points a\<rparr>]\<rparr>,
                 newAchievements @ [a])
         else awardLoop now rest (u, newAchievements))"

text \<open>
  \<open>awardPointsForEvent\<close> (administrative award). \<open>userId\<close> and \<open>points\<close> come from
  the request body and may be missing; \<open>!userId\<close> also holds for the empty string and
  \<open>!points\<close> for \<open>0\<close>. The test for an existing participation compares
  \<open>participant.userId.toString()\<close> with the \<open>userId\<close> string of the body; the
  participant record that is pushed holds that string cast to an ObjectId. The response
  carries \<open>pointsAwarded\<close>, \<open>newLevel\<close> and \<open>newAchievements\<close>.
\<close>

definition awardPointsForEvent ::
  "date \<Rightarrow> db \<Rightarrow> string \<Rightarrow> string option \<Rightarrow> int option
     \<Rightarrow> (error + int \<times> int \<times> achievement list) \<times> db" where
  "awardPointsForEvent now d paramsId userId points =
     (case castObjectId paramsId of
        None \<Rightarrow> (Inl CastError, d)
      | Some eid \<Rightarrow>
     (case events d eid of
        None \<Rightarrow> (Inl (AppError ''Event not found'' 404), d)
      | Some ev \<Rightarrow>
          (case (userId, points) of
             (Some bodyUserId, Some pts) \<Rightarrow>
               if bodyUserId = [] \<or> pts = 0
               then (Inl (AppError ''User ID and points are required'' 400), d)
               else
                 (case castObjectId bodyUserId of
                    None \<Rightarrow> (Inl CastError, d)
                  | Some uid \<Rightarrow>
                 (case users d uid of
                    None \<Rightarrow> (Inl (AppError ''User not found'' 404), d)
                  | Some u \<Rightarrow>
                      (case find (\<lambda>p. p_userId p = bodyUserId) (participants ev) of
                         Some existingParticipation \<Rightarrow>
                           (Inl (AppError ''User is already participating in this event'' 400), d)
                       | None \<Rightarrow>
                           let ev1 = ev\<lparr>participants := participants ev @
                                       [\<lparr>p_userId = uid, p_pointsEarned = pts,
                                         p_participatedAt = now\<rparr>]\<rparr>;
                               d1 = d\<lparr>events := (events d)(eid \<mapsto> preSave now ev1)\<rparr>;
                               u1 = u\<lparr>totalPoints := totalPoints u + pts\<rparr>;
                               u2 = u1\<lparr>level := calculateLevel u1\<rparr>;
                               u3 = u2\<lparr>eventsParticipated := eventsParticipated u2 @
                                      [\<lparr>eventId = eid, pointsEarned = pts,
                                        participatedAt = now\<rparr>]\<rparr>;
                               d2 = d1\<lparr>users := (users d1)(uid \<mapsto> u3)\<rparr>;
                               allAchievements = filter a_isActive (achievementDocs d2);
                               (u4, newAchievements) = awardLoop now allAchievements (u3, []);
                               d3 = (if newAchievements \<noteq> []
                                     then d2\<lparr>users := (users d2)(uid \<mapsto> u4)\<rparr> else d2)
                           in (Inr (pts, level u4, newAchievements), d3))))
           | _ \<Rightarrow> (Inl (AppError ''User ID and points are required'' 400), d))))"

text \<open>The achievement loop of \<open>checkUserAchievements\<close>.\<close>

fun checkLoop ::
  "date \<Rightarrow> achievement list \<Rightarrow> user \<times> achievement list \<Rightarrow> user \<times> achievement list" where
  "checkLoop now [] (u, newAchievements) = (u, newAchievements)"
| "checkLoop now (a # rest) (u, newAchievements) =
     (let hasAchievement = list_ex (\<lambda>ua. achievementId ua = a_id a) (achievements u)
      in if \<not> hasAchievement \<and> checkEligibility a u
         then
           let u1 = u\<lparr>achievements := achievements u @
                      [\<lparr>achievementId = a_id a, earnedAt = now, ua_points = a_points a\<rparr>]\<rparr>;
               u2 = u1\<lparr>totalPoints := totalPoints u1 + a_points a\<rparr>;
               u3 = u2\<lparr>level := calculateLevel u2\<rparr>
           in checkLoop now rest (u3, newAchievements @ [a])
         else checkLoop now rest (u, newAchievements))"

text \<open>
  \<open>checkUserAchievements\<close> (direct achievement check) for \<open>req.user.id\<close>; the
  response carries \<open>newAchievements\<close>.
\<close>

definition checkUserAchievements ::
  "date \<Rightarrow> db \<Rightarrow> objectId \<Rightarrow> (error + achievement list) \<times> db" where
  "checkUserAchievements now d uid =
     (case users d uid of
        None \<Rightarrow> (Inl TypeError, d)
      | Some u \<Rightarrow>
          let allAchievements = filter a_isActive (achievementDocs d);
              (u1, newAchievements) = checkLoop now allAchievements (u, []);
              d1 = (if newAchievements \<noteq> []
                    then d\<lparr>users := (users d)(uid \<mapsto> u1)\<rparr> else d)
          in (Inr newAchievements, d1))"

section \<open>Example documents\<close>

text \<open>
  Concrete documents on which the theorems below are run. The users Alex (2850 points,
  stored level 12) and Mike (1800 points, stored level 7) and the achievements
  ``Academic Excellence'', ``Team Player'', ``Leadership Master'', ``Speed Demon'' and
  ``First Steps'' are the seed script's; the event is the one of the specification's
  example (200 points, no capacity limit).
\<close>

definition hackathonId :: objectId where
  "hackathonId = ''65a000000000000000000001''"

definition alexId :: objectId where
  "alexId = ''65b000000000000000000007''"

definition user8Id :: objectId where
  "user8Id = ''65b000000000000000000008''"

definition user9Id :: objectId where
  "user9Id = ''65b000000000000000000009''"

definition mikeId :: objectId where
  "mikeId = ''65b00000000000000000000a''"

text \<open>The ids of the hackathon and of user 8 as a client may spell them.\<close>

definition hackathonIdUpper :: string where
  "hackathonIdUpper = ''65A000000000000000000001''"

definition user8IdUpper :: string where
  "user8IdUpper = ''65B000000000000000000008''"

definition academicExcellence :: achievement where
  "academicExcellence =
     \<lparr>a_id = ''65c000000000000000000001'', a_points = 500,
      a_requirements = \<lparr>req_type = Points, req_value = 2000\<rparr>, a_isActive = True\<rparr>"

definition highScorer :: achievement where
  "highScorer =
     \<lparr>a_id = ''65c000000000000000000002'', a_points = 100,
      a_requirements = \<lparr>req_type = Points, req_value = 3200\<rparr>, a_isActive = True\<rparr>"

definition firstSteps :: achievement where
  "firstSteps =
     \<lparr>a_id = ''65c000000000000000000003'', a_points = 50,
      a_requirements = \<lparr>req_type = Events, req_value = 1\<rparr>, a_isActive = True\<rparr>"

definition streakKeeper :: achievement where
  "streakKeeper =
     \<lparr>a_id = ''65c000000000000000000004'', a_points = 100,
      a_requirements = \<lparr>req_type = Streak, req_value = 0\<rparr>, a_isActive = True\<rparr>"

definition specialMention :: achievement where
  "specialMention =
     \<lparr>a_id = ''65c000000000000000000005'', a_points = 100,
      a_requirements = \<lparr>req_type = Custom, req_value = 0\<rparr>, a_isActive = True\<rparr>"

definition retired :: achievement where
  "retired =
     \<lparr>a_id = ''65c000000000000000000006'', a_points = 10,
      a_requirements = \<lparr>req_type = Points, req_value = 0\<rparr>, a_isActive = False\<rparr>"

definition teamPlayer :: achievement where
  "teamPlayer =
     \<lparr>a_id = ''65c000000000000000000007'', a_points = 300,
      a_requirements = \<lparr>req_type = Events, req_value = 3\<rparr>, a_isActive = True\<rparr>"

definition leadershipMaster :: achievement where
  "leadershipMaster =
     \<lparr>a_id = ''65c000000000000000000008'', a_points = 1000,
      a_requirements = \<lparr>req_type = Events, req_value = 5\<rparr>, a_isActive = True\<rparr>"

definition speedDemon :: achievement where
  "speedDemon =
     \<lparr>a_id = ''65c000000000000000000009'', a_points = 100,
      a_requirements = \<lparr>req_type = Events, req_value = 10\<rparr>, a_isActive = True\<rparr>"

definition alex :: user where
  "alex = \<lparr>totalPoints = 2850, level = 12, achievements = [], eventsParticipated = []\<rparr>"

definition mike :: user where
  "mike = \<lparr>totalPoints = 1800, level = 7, achievements = [], eventsParticipated = []\<rparr>"

definition hackathon :: event where
  "hackathon =
     \<lparr>ev_points = 200, ev_date = 5000, ev_status = Upcoming, participants = [],
      maxParticipants = None, ev_isActive = True\<rparr>"

definition demo_db :: db where
  "demo_db =
     \<lparr>events = [hackathonId \<mapsto> hackathon], users = [alexId \<mapsto> alex],
      achievementDocs = [academicExcellence, highScorer]\<rparr>"

text \<open>The same database with the two achievements in the other order.\<close>

definition swapped_db :: db where
  "swapped_db = demo_db\<lparr>achievementDocs := [highScorer, academicExcellence]\<rparr>"

text \<open>Mike and the five achievements as the seed script creates them.\<close>

definition seed_db :: db where
  "seed_db =
     \<lparr>events = [hackathonId \<mapsto> hackathon], users = [mikeId \<mapsto> mike],
      achievementDocs =
        [academicExcellence, teamPlayer, leadershipMaster, speedDemon, firstSteps]\<rparr>"

text \<open>
  The hackathon with a capacity of one, already taken by user 8 (who is a user of this
  database); and the same event soft-deleted and completed.
\<close>

definition fullHackathon :: event where
  "fullHackathon =
     hackathon
       \<lparr>participants := [\<lparr>p_userId = user8Id, p_pointsEarned = 200, p_participatedAt = 0\<rparr>],
        maxParticipants := Some 1\<rparr>"

definition full_db :: db where
  "full_db =
     demo_db\<lparr>events := [hackathonId \<mapsto> fullHackathon],
             users := [alexId \<mapsto> alex, user8Id \<mapsto> mike]\<rparr>"

definition closed_db :: db where
  "closed_db =
     full_db\<lparr>events :=
       [hackathonId \<mapsto> fullHackathon\<lparr>ev_status := Completed, ev_isActive := False\<rparr>]\<rparr>"

text \<open>The hackathon with \<open>maxParticipants\<close> 0: without participants, and with two.\<close>

definition zero_db :: db where
  "zero_db = demo_db\<lparr>events := [hackathonId \<mapsto> hackathon\<lparr>maxParticipants := Some 0\<rparr>]\<rparr>"

definition crowdedHackathon :: event where
  "crowdedHackathon =
     hackathon
       \<lparr>participants := [\<lparr>p_userId = user8Id, p_pointsEarned = 200, p_participatedAt = 0\<rparr>,
                         \<lparr>p_userId = user9Id, p_pointsEarned = 200, p_participatedAt = 0\<rparr>],
        maxParticipants := Some 0\<rparr>"

definition crowded_db :: db where
  "crowded_db = demo_db\<lparr>events := [hackathonId \<mapsto> crowdedHackathon]\<rparr>"

text \<open>The hackathon with a capacity of one and nobody in it.\<close>

definition limited_db :: db where
  "limited_db = demo_db\<lparr>events := [hackathonId \<mapsto> hackathon\<lparr>maxParticipants := Some 1\<rparr>]\<rparr>"

text \<open>
  Alex holds a participation record of the hackathon while the event's participant list
  does not hold Alex: the state that a Leave reaches when the event is saved and the
  save of the user fails.
\<close>

definition stale_db :: db where
  "stale_db =
     demo_db\<lparr>users := [alexId \<mapsto> alex
       \<lparr>eventsParticipated :=
          [\<lparr>eventId = hackathonId, pointsEarned = 50, participatedAt = 0\<rparr>]\<rparr>]\<rparr>"

text \<open>
  Alex joined the hackathon when it was worth 200 points and holds 100 points now; the
  event has been edited down to 50 points since.
\<close>

definition spentHackathon :: event where
  "spentHackathon =
     hackathon
       \<lparr>ev_points := 50,
        participants := [\<lparr>p_userId = alexId, p_pointsEarned = 200, p_participatedAt = 0\<rparr>]\<rparr>"

definition spentAlex :: user where
  "spentAlex =
     \<lparr>totalPoints = 100, level = 1, achievements = [],
      eventsParticipated = [\<lparr>eventId = hackathonId, pointsEarned = 200, participatedAt = 0\<rparr>]\<rparr>"

definition spent_db :: db where
  "spent_db =
     \<lparr>events = [hackathonId \<mapsto> spentHackathon], users = [alexId \<mapsto> spentAlex],
      achievementDocs = []\<rparr>"

section \<open>Auxiliary facts\<close>

lemma calculateLevel_div: "calculateLevel u = totalPoints u div 200 + 1"
proof -
  have "\<lfloor>real_of_int (totalPoints u) / real_of_int 200\<rfloor> = totalPoints u div 200"
    by (rule floor_divide_of_int_eq)
  then show ?thesis by (simp add: calculateLevel_def)
qed




lemma preSave_fields [simp]:
  "participants (preSave now e) = participants e"
  "ev_points (preSave now e) = ev_points e"
  "maxParticipants (preSave now e) = maxParticipants e"
  by (simp_all add: preSave_def)

lemma findIndex_None: "findIndex P xs = None \<longleftrightarrow> \<not> list_ex P xs"
  by (induction xs) auto



lemma splice1_last [simp]: "splice1 (length xs) (xs @ [x]) = xs"
  by (simp add: splice1_def)

lemma canParticipate_iff:
  "canParticipate e uid \<longleftrightarrow>
     ev_isActive e \<and> ev_status e \<noteq> Completed \<and> ev_status e \<noteq> Cancelled \<and>
     \<not> list_ex (\<lambda>p. p_userId p = uid) (participants e) \<and>
     (case maxParticipants e of None \<Rightarrow> True
      | Some m \<Rightarrow> m = 0 \<or> int (length (participants e)) < m)"
  by (auto simp: canParticipate_def Let_def split: option.splits)


lemma distinct_ids_append:
  assumes "distinct (map a_id added)"
    and "set (map a_id added) \<inter> set ids = {}"
    and "distinct ids"
  shows "distinct (ids @ map a_id added)"
  using assms by auto

lemma pair_of_fst: "fst p = a \<Longrightarrow> p = (a, snd p)"
  by (cases p) simp

lemma participate_success:
  assumes "participateInEvent now d rid uid = (Inr r, d')"
  shows "\<exists>eid ev u. castObjectId rid = Some eid \<and> events d eid = Some ev \<and>
           users d uid = Some u \<and> canParticipate ev uid \<and> r = ev_points ev \<and>
           events d' = (events d)(eid \<mapsto> preSave now (ev\<lparr>participants := participants ev @
                [\<lparr>p_userId = uid, p_pointsEarned = ev_points ev, p_participatedAt = now\<rparr>]\<rparr>)) \<and>
           users d' = (users d)(uid \<mapsto> u\<lparr>totalPoints := totalPoints u + ev_points ev,
                level := calculateLevel (u\<lparr>totalPoints := totalPoints u + ev_points ev\<rparr>),
                eventsParticipated := eventsParticipated u @
                  [\<lparr>eventId = eid, pointsEarned = ev_points ev, participatedAt = now\<rparr>]\<rparr>) \<and>
           achievementDocs d' = achievementDocs d"
  using assms
  by (auto simp: participateInEvent_def Let_def split: option.splits if_splits)

lemma participate_failure:
  assumes "castObjectId rid = Some eid" "events d eid = Some ev" "\<not> canParticipate ev uid"
  shows "participateInEvent now d rid uid =
           (Inl (AppError ''Cannot participate in this event'' 400), d)"
  using assms by (simp add: participateInEvent_def)


lemma awardLoop_stats:
  "awardLoop now as (u, n) = (u', n') \<Longrightarrow>
     totalPoints u' = totalPoints u \<and> level u' = level u \<and>
     eventsParticipated u' = eventsParticipated u"
proof (induction as arbitrary: u n)
  case Nil
  then show ?case by simp
next
  case (Cons a as)
  then show ?case
    by (fastforce simp: Let_def split: if_splits)
qed



lemma awardLoop_ids:
  "awardLoop now as (u, n) = (u', n') \<Longrightarrow>
     \<exists>added. n' = n @ added \<and>
       achievements u' = achievements u @ map (\<lambda>a. \<lparr>achievementId = a_id a, earnedAt = now, ua_points = a_points a\<rparr>) added \<and>
       distinct (map a_id added) \<and>
       set (map a_id added) \<inter> set (map achievementId (achievements u)) = {} \<and>
       set added \<subseteq> set as"
proof (induction as arbitrary: u n)
  case Nil
  then show ?case by simp
next
  case (Cons a as)
  show ?case
  proof (cases "\<not> list_ex (\<lambda>ua. achievementId ua = a_id a) (achievements u) \<and> checkEligibility a u")
    case True
    let ?u1 = "u\<lparr>achievements := achievements u @
          [\<lparr>achievementId = a_id a, earnedAt = now, ua_points = a_points a\<rparr>]\<rparr>"
    from True Cons.prems have "awardLoop now as (?u1, n @ [a]) = (u', n')"
      by (simp add: Let_def)
    from Cons.IH [OF this] obtain added where
      a: "n' = (n @ [a]) @ added"
      and b: "achievements u' = achievements ?u1 @ map (\<lambda>a. \<lparr>achievementId = a_id a, earnedAt = now, ua_points = a_points a\<rparr>) added"
      and c: "distinct (map a_id added)"
      and e: "set (map a_id added) \<inter> set (map achievementId (achievements ?u1)) = {}"
      and f: "set added \<subseteq> set as"
      by blast
    from True have g: "a_id a \<notin> set (map achievementId (achievements u))"
      by (auto simp: list_ex_iff)
    have "n' = n @ (a # added)" using a by simp
    moreover have "achievements u' = achievements u @ map (\<lambda>a. \<lparr>achievementId = a_id a, earnedAt = now, ua_points = a_points a\<rparr>) (a # added)"
      using b by simp
    moreover have "distinct (map a_id (a # added))" using c e by (auto simp: image_iff)
    moreover have "set (map a_id (a # added)) \<inter> set (map achievementId (achievements u)) = {}"
      using e g by auto
    moreover have "set (a # added) \<subseteq> set (a # as)" using f by auto
    ultimately show ?thesis by blast
  next
    case False
    with Cons.prems have "awardLoop now as (u, n) = (u', n')"
      by (auto simp: Let_def)
    from Cons.IH [OF this] show ?thesis by auto
  qed
qed

lemma checkLoop_unchanged:
  "checkLoop now as (u, n) = (u', n') \<Longrightarrow>
     length n \<le> length n' \<and> (n' = n \<longrightarrow> u' = u)"
proof (induction as arbitrary: u n)
  case Nil
  then show ?case by simp
next
  case (Cons a as)
  show ?case
  proof (cases "\<not> list_ex (\<lambda>ua. achievementId ua = a_id a) (achievements u) \<and> checkEligibility a u")
    case True
    with Cons.prems obtain u1 where "checkLoop now as (u1, n @ [a]) = (u', n')"
      by (simp add: Let_def)
    from Cons.IH [OF this] show ?thesis by auto
  next
    case False
    with Cons.prems have "checkLoop now as (u, n) = (u', n')"
      by (auto simp: Let_def)
    from Cons.IH [OF this] show ?thesis .
  qed
qed

lemmas id_defs = hackathonId_def alexId_def user8Id_def user9Id_def mikeId_def
  hackathonIdUpper_def user8IdUpper_def

lemma cast_examples:
  "castObjectId hackathonId = Some hackathonId"
  "castObjectId hackathonIdUpper = Some hackathonId"
  "castObjectId alexId = Some alexId"
  "castObjectId user8Id = Some user8Id"
  "castObjectId user8IdUpper = Some user8Id"
  "castObjectId mikeId = Some mikeId"
  by (simp_all add: id_defs castObjectId_def isHexDigit_def toLowerHex_def)

lemma ids_differ:
  "hackathonIdUpper \<noteq> hackathonId" "user8IdUpper \<noteq> user8Id"
  "alexId \<noteq> user8Id" "alexId \<noteq> user9Id" "user8Id \<noteq> user9Id" "alexId \<noteq> user8IdUpper"
  "user8Id \<noteq> alexId" "user9Id \<noteq> alexId" "user8IdUpper \<noteq> alexId" "user8Id \<noteq> user8IdUpper"
  "hackathonId \<noteq> hackathonIdUpper"
  "alexId \<noteq> []" "user8Id \<noteq> []" "user8IdUpper \<noteq> []" "mikeId \<noteq> []"
  by (simp_all add: id_defs)

lemmas demo_defs = demo_db_def swapped_db_def seed_db_def full_db_def closed_db_def zero_db_def
  crowded_db_def limited_db_def stale_db_def spent_db_def alex_def mike_def hackathon_def
  fullHackathon_def crowdedHackathon_def spentHackathon_def spentAlex_def
  academicExcellence_def highScorer_def firstSteps_def streakKeeper_def specialMention_def
  retired_def teamPlayer_def leadershipMaster_def speedDemon_def

lemmas run_defs = participateInEvent_def removeParticipation_def awardPointsForEvent_def
  checkUserAchievements_def canParticipate_def preSave_def checkEligibility_def splice1_def
  calculateLevel_div Let_def cast_examples ids_differ

lemma run_join: "fst (participateInEvent 1000 demo_db hackathonId alexId) = Inr 200"
  by (simp add: demo_defs run_defs)
lemma run_award: "fst (awardPointsForEvent 1000 demo_db hackathonId (Some alexId) (Some 150)) = Inr (150, 16, [academicExcellence])"
  by (simp add: demo_defs run_defs)
lemma run_check: "fst (checkUserAchievements 1000 demo_db alexId) = Inr [academicExcellence, highScorer]"
  by (simp add: demo_defs run_defs)

lemma checkLoop_ids:
  "checkLoop now as (u, n) = (u', n') \<Longrightarrow>
     \<exists>added. n' = n @ added \<and>
       achievements u' = achievements u @ map (\<lambda>a. \<lparr>achievementId = a_id a, earnedAt = now, ua_points = a_points a\<rparr>) added \<and>
       distinct (map a_id added) \<and>
       set (map a_id added) \<inter> set (map achievementId (achievements u)) = {} \<and>
       set added \<subseteq> set as"
proof (induction as arbitrary: u n)
  case Nil
  then show ?case by simp
next
  case (Cons a as)
  show ?case
  proof (cases "\<not> list_ex (\<lambda>ua. achievementId ua = a_id a) (achievements u) \<and> checkEligibility a u")
    case True
    let ?u1 = "u\<lparr>achievements := achievements u @
          [\<lparr>achievementId = a_id a, earnedAt = now, ua_points = a_points a\<rparr>],
          totalPoints := totalPoints u + a_points a,
          level := calculateLevel (u\<lparr>totalPoints := totalPoints u + a_points a\<rparr>)\<rparr>"
    from True Cons.prems have "checkLoop now as (?u1, n @ [a]) = (u', n')"
      by (simp add: Let_def calculateLevel_def)
    from Cons.IH [OF this] obtain added where
      a: "n' = (n @ [a]) @ added"
      and b: "achievements u' = achievements ?u1 @ map (\<lambda>a. \<lparr>achievementId = a_id a, earnedAt = now, ua_points = a_points a\<rparr>) added"
      and c: "distinct (map a_id added)"
      and e: "set (map a_id added) \<inter> set (map achievementId (achievements ?u1)) = {}"
      and f: "set added \<subseteq> set as"
      by blast
    from True have g: "a_id a \<notin> set (map achievementId (achievements u))"
      by (auto simp: list_ex_iff)
    have "n' = n @ (a # added)" using a by simp
    moreover have "achievements u' = achievements u @ map (\<lambda>a. \<lparr>achievementId = a_id a, earnedAt = now, ua_points = a_points a\<rparr>) (a # added)"
      using b by simp
    moreover have "distinct (map a_id (a # added))" using c e by (auto simp: image_iff)
    moreover have "set (map a_id (a # added)) \<inter> set (map achievementId (achievements u)) = {}"
      using e g by auto
    moreover have "set (a # added) \<subseteq> set (a # as)" using f by auto
    ultimately show ?thesis by blast
  next
    case False
    with Cons.prems have "checkLoop now as (u, n) = (u', n')"
      by (auto simp: Let_def)
    from Cons.IH [OF this] show ?thesis by auto
  qed
qed

lemma check_success:
  assumes "checkUserAchievements now d uid = (Inr new, d')" "users d uid = Some u"
  shows "\<exists>u'. checkLoop now (filter a_isActive (achievementDocs d)) (u, []) = (u', new) \<and>
           users d' uid = Some u'"
proof -
  obtain u1 n1 where loop: "checkLoop now (filter a_isActive (achievementDocs d)) (u, []) = (u1, n1)"
    by (cases "checkLoop now (filter a_isActive (achievementDocs d)) (u, [])") blast
  from assms loop have res: "new = n1"
    "d' = (if n1 \<noteq> [] then d\<lparr>users := (users d)(uid \<mapsto> u1)\<rparr> else d)"
    by (auto simp: checkUserAchievements_def Let_def)
  from checkLoop_unchanged [OF loop] have "n1 = [] \<Longrightarrow> u1 = u" by simp
  with res loop assms(2) show ?thesis by (cases "n1 = []") auto
qed



lemma find_None_list_ex: "find P xs = None \<longleftrightarrow> \<not> list_ex P xs"
  by (induction xs) auto

lemma award_success:
  assumes "awardPointsForEvent now d rid userId points = (Inr r, d')"
  shows "\<exists>eid ev u ruid uid pts u4 new.
           castObjectId rid = Some eid \<and> userId = Some ruid \<and> castObjectId ruid = Some uid \<and>
           points = Some pts \<and> pts \<noteq> 0 \<and>
           events d eid = Some ev \<and> users d uid = Some u \<and>
           \<not> list_ex (\<lambda>p. p_userId p = ruid) (participants ev) \<and>
           awardLoop now (filter a_isActive (achievementDocs d))
             (u\<lparr>totalPoints := totalPoints u + pts,
                level := calculateLevel (u\<lparr>totalPoints := totalPoints u + pts\<rparr>),
                eventsParticipated := eventsParticipated u @
                  [\<lparr>eventId = eid, pointsEarned = pts, participatedAt = now\<rparr>]\<rparr>, []) = (u4, new) \<and>
           r = (pts, level u4, new) \<and>
           events d' = (events d)(eid \<mapsto> preSave now (ev\<lparr>participants := participants ev @
                [\<lparr>p_userId = uid, p_pointsEarned = pts, p_participatedAt = now\<rparr>]\<rparr>)) \<and>
           users d' = (users d)(uid \<mapsto> u4) \<and>
           achievementDocs d' = achievementDocs d"
proof -
  from assms obtain eid where eid: "castObjectId rid = Some eid"
    by (auto simp: awardPointsForEvent_def split: option.splits)
  from assms eid obtain ev where ev: "events d eid = Some ev"
    by (auto simp: awardPointsForEvent_def split: option.splits)
  from assms eid ev obtain ruid pts where
    up: "userId = Some ruid" "points = Some pts" "pts \<noteq> 0" "ruid \<noteq> []"
    by (auto simp: awardPointsForEvent_def split: option.splits if_splits)
  from assms eid ev up obtain uid where uid: "castObjectId ruid = Some uid"
    by (auto simp: awardPointsForEvent_def split: option.splits if_splits)
  from assms eid ev up uid obtain u where u: "users d uid = Some u"
    by (auto simp: awardPointsForEvent_def split: option.splits if_splits)
  from assms eid ev up uid u have nf: "find (\<lambda>p. p_userId p = ruid) (participants ev) = None"
    by (auto simp: awardPointsForEvent_def split: option.splits if_splits)
  let ?u3 = "u\<lparr>totalPoints := totalPoints u + pts,
                level := calculateLevel (u\<lparr>totalPoints := totalPoints u + pts\<rparr>),
                eventsParticipated := eventsParticipated u @
                  [\<lparr>eventId = eid, pointsEarned = pts, participatedAt = now\<rparr>]\<rparr>"
  obtain u4 new where loop:
    "awardLoop now (filter a_isActive (achievementDocs d)) (?u3, []) = (u4, new)"
    by (cases "awardLoop now (filter a_isActive (achievementDocs d)) (?u3, [])") blast
  have same: "new = [] \<Longrightarrow> u4 = ?u3"
  proof -
    assume n: "new = []"
    from awardLoop_ids [OF loop] awardLoop_stats [OF loop] n
    have "achievements u4 = achievements ?u3" "totalPoints u4 = totalPoints ?u3"
      "level u4 = level ?u3" "eventsParticipated u4 = eventsParticipated ?u3"
      by auto
    then show "u4 = ?u3" by (intro user.equality) simp_all
  qed
  from nf have nl: "\<not> list_ex (\<lambda>p. p_userId p = ruid) (participants ev)"
    by (simp add: find_None_list_ex)
  from assms eid ev up uid u nf nl loop same show ?thesis
    by (cases "new = []") (auto simp: awardPointsForEvent_def Let_def calculateLevel_def)
qed



text \<open>Further runs and look-ups on the example documents.\<close>

lemma run_check_seed: "checkUserAchievements 1000 seed_db mikeId = (Inr [], seed_db)"
  by (simp add: demo_defs run_defs)




lemma example_events:
  "events limited_db hackathonId = Some (hackathon\<lparr>maxParticipants := Some 1\<rparr>)"
  "events full_db hackathonId = Some fullHackathon"
  "events closed_db hackathonId =
     Some (fullHackathon\<lparr>ev_status := Completed, ev_isActive := False\<rparr>)"
  "events demo_db hackathonId = Some hackathon"
  "events spent_db hackathonId = Some spentHackathon"
  "events crowded_db hackathonId = Some crowdedHackathon"
  by (simp_all add: demo_defs)

lemma example_users:
  "users full_db alexId = Some alex" "users full_db user8Id = Some mike"
  "users closed_db alexId = Some alex" "users crowded_db alexId = Some alex"
  by (simp_all add: demo_defs ids_differ)


lemma run_check_again:
  "fst (checkUserAchievements 2000 (snd (checkUserAchievements 1000 demo_db alexId)) alexId) = Inr []"
  by (simp add: demo_defs run_defs)

section \<open>The level invariant\<close>




section \<open>The achievement sweep of the administrative award\<close>

text \<open>
  Claim C2 says that the sweep inside \<open>awardPointsForEvent\<close> adds the points of every
  newly awarded achievement to \<open>totalPoints\<close>. The loop of \<open>awardPointsForEvent\<close> only
  pushes the achievement record; unlike the loop of \<open>checkUserAchievements\<close> it has no
  \<open>user.totalPoints += achievement.points\<close>. Run on the example: Alex (2850 points) is
  awarded 150 points for the hackathon and thereby earns ``Academic Excellence'' (500
  points); the saved user holds the achievement record with its 500 points, and a total
  of 3000, not 3500.
\<close>

theorem award_sweep_leaves_totalPoints:
  "fst (awardPointsForEvent 1000 demo_db hackathonId (Some alexId) (Some 150)) =
     Inr (150, 16, [academicExcellence]) \<and>
   users (snd (awardPointsForEvent 1000 demo_db hackathonId (Some alexId) (Some 150))) alexId =
     Some \<lparr>totalPoints = 3000, level = 16,
            achievements = [\<lparr>achievementId = a_id academicExcellence, earnedAt = 1000,
                             ua_points = 500\<rparr>],
            eventsParticipated =
              [\<lparr>eventId = hackathonId, pointsEarned = 150, participatedAt = 1000\<rparr>]\<rparr>"
  by (simp add: demo_defs run_defs)

section \<open>Capacity\<close>




section \<open>Join followed by Leave\<close>




section \<open>Rejected Join\<close>

text \<open>
  Claim C5 as stated (Join fails whenever the participant count is at \<open>maxParticipants\<close>)
  fails for \<open>maxParticipants = 0\<close>: the capacity test of \<open>canParticipate\<close> is guarded by
  the truthiness of \<open>maxParticipants\<close>, so an event with capacity 0 and 0 participants
  accepts the Join.
\<close>

theorem join_zero_capacity_succeeds:
  "events zero_db hackathonId =
     Some \<lparr>ev_points = 200, ev_date = 5000, ev_status = Upcoming, participants = [],
            maxParticipants = Some 0, ev_isActive = True\<rparr> \<and>
   fst (participateInEvent 1000 zero_db hackathonId alexId) = Inr 200 \<and>
   events (snd (participateInEvent 1000 zero_db hackathonId alexId)) hackathonId =
     Some \<lparr>ev_points = 200, ev_date = 5000, ev_status = Upcoming,
            participants = [\<lparr>p_userId = alexId, p_pointsEarned = 200, p_participatedAt = 1000\<rparr>],
            maxParticipants = Some 0, ev_isActive = True\<rparr>"
  by (simp add: demo_defs run_defs)

text \<open>
  Claim C5, amended. Join fails with ``Cannot participate in this event'' (400) and
  leaves the database as it was whenever the event is inactive, completed or cancelled,
  the user is already in the participant list, or \<open>maxParticipants\<close> is set, not zero,
  and reached by the participant count. In particular a second Join on the same event
  (however its id is spelled) right after a successful one fails and changes nothing.
\<close>

theorem join_rejected:
  "(castObjectId rid = Some eid \<and> events d eid = Some ev \<and>
      (\<not> ev_isActive ev \<or> ev_status ev = Completed \<or> ev_status ev = Cancelled \<or>
       list_ex (\<lambda>p. p_userId p = uid) (participants ev) \<or>
       (\<exists>m. maxParticipants ev = Some m \<and> m \<noteq> 0 \<and> m \<le> int (length (participants ev)))) \<longrightarrow>
      participateInEvent now d rid uid =
        (Inl (AppError ''Cannot participate in this event'' 400), d)) \<and>
   (participateInEvent now d rid uid = (Inr r, dj) \<and> castObjectId rid' = castObjectId rid \<longrightarrow>
      participateInEvent now' dj rid' uid =
        (Inl (AppError ''Cannot participate in this event'' 400), dj))"
proof (intro conjI impI)
  assume a: "castObjectId rid = Some eid \<and> events d eid = Some ev \<and>
      (\<not> ev_isActive ev \<or> ev_status ev = Completed \<or> ev_status ev = Cancelled \<or>
       list_ex (\<lambda>p. p_userId p = uid) (participants ev) \<or>
       (\<exists>m. maxParticipants ev = Some m \<and> m \<noteq> 0 \<and> m \<le> int (length (participants ev))))"
  then have "\<not> canParticipate ev uid"
    by (auto simp: canParticipate_iff)
  with a show "participateInEvent now d rid uid =
        (Inl (AppError ''Cannot participate in this event'' 400), d)"
    by (simp add: participate_failure)
next
  assume a: "participateInEvent now d rid uid = (Inr r, dj) \<and> castObjectId rid' = castObjectId rid"
  then have run: "participateInEvent now d rid uid = (Inr r, dj)" by simp
  from participate_success [OF run] obtain eid ev where
    c: "castObjectId rid = Some eid" and
    ev1: "events dj eid = Some (preSave now (ev\<lparr>participants := participants ev @
                [\<lparr>p_userId = uid, p_pointsEarned = ev_points ev, p_participatedAt = now\<rparr>]\<rparr>))"
    by auto
  from a c have c': "castObjectId rid' = Some eid" by simp
  have "\<not> canParticipate (preSave now (ev\<lparr>participants := participants ev @
                [\<lparr>p_userId = uid, p_pointsEarned = ev_points ev, p_participatedAt = now\<rparr>]\<rparr>)) uid"
    by (simp add: canParticipate_iff)
  with c' ev1 show "participateInEvent now' dj rid' uid =
        (Inl (AppError ''Cannot participate in this event'' 400), dj)"
    by (rule participate_failure)
qed

theorem join_rejected_witness:
  "events full_db hackathonId = Some fullHackathon \<and>
   maxParticipants fullHackathon = Some 1 \<and> length (participants fullHackathon) = 1 \<and>
   participateInEvent 1000 full_db hackathonId alexId =
     (Inl (AppError ''Cannot participate in this event'' 400), full_db) \<and>
   participateInEvent 1000 full_db hackathonId user8Id =
     (Inl (AppError ''Cannot participate in this event'' 400), full_db) \<and>
   (\<exists>dj. participateInEvent 1000 demo_db hackathonId alexId = (Inr 200, dj) \<and>
      participateInEvent 2000 dj hackathonIdUpper alexId =
        (Inl (AppError ''Cannot participate in this event'' 400), dj))"
proof -
  let ?dj = "snd (participateInEvent 1000 demo_db hackathonId alexId)"
  have e: "events full_db hackathonId = Some fullHackathon" by (simp add: demo_defs)
  have full: "maxParticipants fullHackathon = Some 1" "length (participants fullHackathon) = 1"
    by (simp_all add: demo_defs)
  then have cap: "\<exists>m. maxParticipants fullHackathon = Some m \<and> m \<noteq> 0 \<and>
      m \<le> int (length (participants fullHackathon))"
    by simp
  have dup: "list_ex (\<lambda>p. p_userId p = user8Id) (participants fullHackathon)"
    by (simp add: demo_defs)
  have j: "participateInEvent 1000 demo_db hackathonId alexId = (Inr 200, ?dj)"
    by (rule pair_of_fst [OF run_join])
  note T = join_rejected [where rid = hackathonId and eid = hackathonId and now = 1000]
  from T [where d = full_db and ev = fullHackathon and uid = alexId,
      THEN conjunct1, rule_format] e cap cast_examples
  have 1: "participateInEvent 1000 full_db hackathonId alexId =
     (Inl (AppError ''Cannot participate in this event'' 400), full_db)" by blast
  from T [where d = full_db and ev = fullHackathon and uid = user8Id,
      THEN conjunct1, rule_format] e dup cast_examples
  have 2: "participateInEvent 1000 full_db hackathonId user8Id =
     (Inl (AppError ''Cannot participate in this event'' 400), full_db)" by blast
  from T [where d = demo_db and uid = alexId and r = 200 and dj = ?dj and now' = 2000
      and rid' = hackathonIdUpper, THEN conjunct2, rule_format] j cast_examples
  have "participateInEvent 2000 ?dj hackathonIdUpper alexId =
        (Inl (AppError ''Cannot participate in this event'' 400), ?dj)" by simp
  with j have 3: "\<exists>dj. participateInEvent 1000 demo_db hackathonId alexId = (Inr 200, dj) \<and>
      participateInEvent 2000 dj hackathonIdUpper alexId =
        (Inl (AppError ''Cannot participate in this event'' 400), dj)" by blast
  from e full 1 2 3 show ?thesis by blast
qed

section \<open>Eligibility\<close>

text \<open>
  Claim C6. \<open>checkEligibility\<close> is false for an inactive achievement whatever the user's
  stats; for an active one it is \<open>totalPoints \<ge> value\<close> for a points requirement,
  \<open>length eventsParticipated \<ge> value\<close> for an events requirement, and false for streak
  and custom requirements. It returns a truth value and nothing else: the achievement
  and the user are arguments of a function and are not changed by it.
\<close>

theorem checkEligibility_policy:
  "(\<not> a_isActive a \<longrightarrow> \<not> checkEligibility a u) \<and>
   (a_isActive a \<and> req_type (a_requirements a) = Points \<longrightarrow>
      checkEligibility a u = (req_value (a_requirements a) \<le> totalPoints u)) \<and>
   (a_isActive a \<and> req_type (a_requirements a) = Events \<longrightarrow>
      checkEligibility a u = (req_value (a_requirements a) \<le> int (length (eventsParticipated u)))) \<and>
   (req_type (a_requirements a) = Streak \<longrightarrow> \<not> checkEligibility a u) \<and>
   (req_type (a_requirements a) = Custom \<longrightarrow> \<not> checkEligibility a u)"
  by (simp add: checkEligibility_def)

theorem checkEligibility_policy_witness:
  "\<not> a_isActive retired \<and> req_value (a_requirements retired) \<le> totalPoints alex \<and>
     \<not> checkEligibility retired alex \<and>
   a_isActive academicExcellence \<and> req_type (a_requirements academicExcellence) = Points \<and>
     checkEligibility academicExcellence alex = (2000 \<le> totalPoints alex) \<and>
   a_isActive firstSteps \<and> req_type (a_requirements firstSteps) = Events \<and>
     checkEligibility firstSteps alex = (1 \<le> int (length (eventsParticipated alex))) \<and>
   req_type (a_requirements streakKeeper) = Streak \<and> \<not> checkEligibility streakKeeper alex \<and>
   req_type (a_requirements specialMention) = Custom \<and> \<not> checkEligibility specialMention alex"
proof -
  have h: "\<not> a_isActive retired" "req_value (a_requirements retired) \<le> totalPoints alex"
    "a_isActive academicExcellence" "req_type (a_requirements academicExcellence) = Points"
    "req_value (a_requirements academicExcellence) = 2000"
    "a_isActive firstSteps" "req_type (a_requirements firstSteps) = Events"
    "req_value (a_requirements firstSteps) = 1"
    "req_type (a_requirements streakKeeper) = Streak"
    "req_type (a_requirements specialMention) = Custom"
    by (simp_all add: demo_defs)
  from h checkEligibility_policy [of retired alex]
    checkEligibility_policy [of academicExcellence alex]
    checkEligibility_policy [of firstSteps alex]
    checkEligibility_policy [of streakKeeper alex]
    checkEligibility_policy [of specialMention alex]
  show ?thesis by simp
qed

section \<open>Points removed by Leave\<close>



section \<open>No achievement is awarded twice\<close>

text \<open>
  Claim C8. In both sweeps (the direct check and the one inside the administrative
  award) the ids of the awarded achievements are pairwise different and none of them is
  in the user's achievement list before the sweep; the saved list is the old one
  followed by the awarded ids, so a list without duplicate ids stays without duplicates.
  As this holds from every state, it holds for every further invocation.
\<close>

theorem sweep_never_awards_held_achievement:
  "(checkUserAchievements now d uid = (Inr new, d') \<and> users d uid = Some u \<longrightarrow>
      (\<exists>u'. users d' uid = Some u' \<and>
         map achievementId (achievements u') = map achievementId (achievements u) @ map a_id new \<and>
         distinct (map a_id new) \<and>
         set (map a_id new) \<inter> set (map achievementId (achievements u)) = {} \<and>
         (distinct (map achievementId (achievements u)) \<longrightarrow>
            distinct (map achievementId (achievements u'))))) \<and>
   (awardPointsForEvent now d rid (Some ruid) points = (Inr (pts, lvl, newa), da) \<and>
      castObjectId ruid = Some uid \<and> users d uid = Some u \<longrightarrow>
      (\<exists>u'. users da uid = Some u' \<and>
         map achievementId (achievements u') = map achievementId (achievements u) @ map a_id newa \<and>
         distinct (map a_id newa) \<and>
         set (map a_id newa) \<inter> set (map achievementId (achievements u)) = {} \<and>
         (distinct (map achievementId (achievements u)) \<longrightarrow>
            distinct (map achievementId (achievements u')))))"
proof (intro conjI impI)
  assume a: "checkUserAchievements now d uid = (Inr new, d') \<and> users d uid = Some u"
  then obtain u' where loop: "checkLoop now (filter a_isActive (achievementDocs d)) (u, []) = (u', new)"
    and us: "users d' uid = Some u'"
    using check_success by blast
  from checkLoop_ids [OF loop] have
    app: "achievements u' = achievements u @
       map (\<lambda>a. \<lparr>achievementId = a_id a, earnedAt = now, ua_points = a_points a\<rparr>) new"
    and dn: "distinct (map a_id new)"
    and dj: "set (map a_id new) \<inter> set (map achievementId (achievements u)) = {}"
    by auto
  from app have ids: "map achievementId (achievements u') =
      map achievementId (achievements u) @ map a_id new"
    by (simp add: comp_def)
  have "distinct (map achievementId (achievements u)) \<Longrightarrow>
      distinct (map achievementId (achievements u'))"
    unfolding ids using dn dj by (rule distinct_ids_append)
  with us ids dn dj show "\<exists>u'. users d' uid = Some u' \<and>
         map achievementId (achievements u') = map achievementId (achievements u) @ map a_id new \<and>
         distinct (map a_id new) \<and>
         set (map a_id new) \<inter> set (map achievementId (achievements u)) = {} \<and>
         (distinct (map achievementId (achievements u)) \<longrightarrow>
            distinct (map achievementId (achievements u')))"
    by blast
next
  assume a: "awardPointsForEvent now d rid (Some ruid) points = (Inr (pts, lvl, newa), da) \<and>
      castObjectId ruid = Some uid \<and> users d uid = Some u"
  then have run: "awardPointsForEvent now d rid (Some ruid) points = (Inr (pts, lvl, newa), da)"
    by simp
  from award_success [OF run] a obtain eid u' where
    loop: "awardLoop now (filter a_isActive (achievementDocs d))
             (u\<lparr>totalPoints := totalPoints u + pts,
                level := calculateLevel (u\<lparr>totalPoints := totalPoints u + pts\<rparr>),
                eventsParticipated := eventsParticipated u @
                  [\<lparr>eventId = eid, pointsEarned = pts, participatedAt = now\<rparr>]\<rparr>, []) = (u', newa)"
    and us: "users da uid = Some u'"
    by auto
  from awardLoop_ids [OF loop] have
    app: "achievements u' = achievements u @
       map (\<lambda>a. \<lparr>achievementId = a_id a, earnedAt = now, ua_points = a_points a\<rparr>) newa"
    and dn: "distinct (map a_id newa)"
    and dj: "set (map a_id newa) \<inter> set (map achievementId (achievements u)) = {}"
    by auto
  from app have ids: "map achievementId (achievements u') =
      map achievementId (achievements u) @ map a_id newa"
    by (simp add: comp_def)
  have "distinct (map achievementId (achievements u)) \<Longrightarrow>
      distinct (map achievementId (achievements u'))"
    unfolding ids using dn dj by (rule distinct_ids_append)
  with us ids dn dj show "\<exists>u'. users da uid = Some u' \<and>
         map achievementId (achievements u') = map achievementId (achievements u) @ map a_id newa \<and>
         distinct (map a_id newa) \<and>
         set (map a_id newa) \<inter> set (map achievementId (achievements u)) = {} \<and>
         (distinct (map achievementId (achievements u)) \<longrightarrow>
            distinct (map achievementId (achievements u')))"
    by blast
qed

theorem sweep_never_awards_held_achievement_witness:
  "(\<exists>d' u'. checkUserAchievements 1000 demo_db alexId =
        (Inr [academicExcellence, highScorer], d') \<and>
      users demo_db alexId = Some alex \<and> distinct (map achievementId (achievements alex)) \<and>
      users d' alexId = Some u' \<and> distinct (map achievementId (achievements u')) \<and>
      (\<exists>d'' u''. checkUserAchievements 2000 d' alexId = (Inr [], d'') \<and>
         users d'' alexId = Some u'' \<and>
         map achievementId (achievements u'') = map achievementId (achievements u'))) \<and>
   (\<exists>da u'. awardPointsForEvent 1000 demo_db hackathonId (Some alexId) (Some 150) =
        (Inr (150, 16, [academicExcellence]), da) \<and>
      users da alexId = Some u' \<and> distinct (map achievementId (achievements u')))"
proof -
  let ?d' = "snd (checkUserAchievements 1000 demo_db alexId)"
  let ?d'' = "snd (checkUserAchievements 2000 ?d' alexId)"
  let ?da = "snd (awardPointsForEvent 1000 demo_db hackathonId (Some alexId) (Some 150))"
  have u: "users demo_db alexId = Some alex"
    and di: "distinct (map achievementId (achievements alex))"
    by (simp_all add: demo_defs)
  have c1: "checkUserAchievements 1000 demo_db alexId =
      (Inr [academicExcellence, highScorer], ?d')"
    by (rule pair_of_fst [OF run_check])
  have c2: "checkUserAchievements 2000 ?d' alexId = (Inr [], ?d'')"
    by (rule pair_of_fst [OF run_check_again])
  have aw: "awardPointsForEvent 1000 demo_db hackathonId (Some alexId) (Some 150) =
        (Inr (150, 16, [academicExcellence]), ?da)"
    by (rule pair_of_fst [OF run_award])
  note T1 = sweep_never_awards_held_achievement [where now = 1000 and d = demo_db and uid = alexId
      and new = "[academicExcellence, highScorer]" and d' = ?d' and u = alex,
      THEN conjunct1, rule_format]
  from T1 c1 u di obtain u' where u': "users ?d' alexId = Some u'"
    "distinct (map achievementId (achievements u'))"
    by blast
  note T2 = sweep_never_awards_held_achievement [where now = 2000 and d = ?d' and uid = alexId
      and new = "[]" and d' = ?d'' and u = u', THEN conjunct1, rule_format]
  from T2 c2 u' obtain u'' where u'': "users ?d'' alexId = Some u''"
    "map achievementId (achievements u'') = map achievementId (achievements u')"
    by auto
  note T3 = sweep_never_awards_held_achievement [where now = 1000 and d = demo_db and uid = alexId
      and rid = hackathonId and ruid = alexId and points = "Some 150" and pts = 150 and lvl = 16
      and newa = "[academicExcellence]" and da = ?da and u = alex,
      THEN conjunct2, rule_format]
  from T3 aw u di cast_examples obtain ua where ua: "users ?da alexId = Some ua"
    "distinct (map achievementId (achievements ua))"
    by blast
  from c1 u di u' c2 u'' have 1: "\<exists>d' u'. checkUserAchievements 1000 demo_db alexId =
        (Inr [academicExcellence, highScorer], d') \<and>
      users demo_db alexId = Some alex \<and> distinct (map achievementId (achievements alex)) \<and>
      users d' alexId = Some u' \<and> distinct (map achievementId (achievements u')) \<and>
      (\<exists>d'' u''. checkUserAchievements 2000 d' alexId = (Inr [], d'') \<and>
         users d'' alexId = Some u'' \<and>
         map achievementId (achievements u'') = map achievementId (achievements u'))"
    by blast
  from aw ua have 2: "\<exists>da u'. awardPointsForEvent 1000 demo_db hackathonId (Some alexId) (Some 150) =
        (Inr (150, 16, [academicExcellence]), da) \<and>
      users da alexId = Some u' \<and> distinct (map achievementId (achievements u'))"
    by blast
  from 1 2 show ?thesis by blast
qed

section \<open>The direct check works on the running total\<close>

text \<open>
  Claim C9. In one invocation of \<open>checkUserAchievements\<close> each achievement is tested
  against the user as the earlier awards left it. Alex (2850 points) does not qualify for
  ``High Scorer'' (threshold 3200); with ``Academic Excellence'' (500 points) first in the
  iteration order, one invocation awards both; with the order swapped it awards only
  ``Academic Excellence''.
\<close>

theorem check_uses_running_points:
  "\<not> checkEligibility highScorer alex \<and>
   fst (checkUserAchievements 1000 demo_db alexId) = Inr [academicExcellence, highScorer] \<and>
   users (snd (checkUserAchievements 1000 demo_db alexId)) alexId =
     Some \<lparr>totalPoints = 3450, level = 18,
            achievements =
              [\<lparr>achievementId = a_id academicExcellence, earnedAt = 1000, ua_points = 500\<rparr>,
               \<lparr>achievementId = a_id highScorer, earnedAt = 1000, ua_points = 100\<rparr>],
            eventsParticipated = []\<rparr> \<and>
   fst (checkUserAchievements 1000 swapped_db alexId) = Inr [academicExcellence] \<and>
   users (snd (checkUserAchievements 1000 swapped_db alexId)) alexId =
     Some \<lparr>totalPoints = 3350, level = 17,
            achievements =
              [\<lparr>achievementId = a_id academicExcellence, earnedAt = 1000, ua_points = 500\<rparr>],
            eventsParticipated = []\<rparr>"
  by (simp add: demo_defs run_defs)

section \<open>Capacity zero\<close>

text \<open>
  Claim C10. For an event with \<open>maxParticipants = 0\<close> the capacity test is skipped:
  \<open>canParticipate\<close> is decided by the other preconditions alone, as for an event without
  a limit, and Join succeeds at any participant count when they hold.
\<close>

theorem zero_maxParticipants_is_unlimited:
  "(maxParticipants ev = Some 0 \<longrightarrow>
      canParticipate ev uid =
        (ev_isActive ev \<and> ev_status ev \<noteq> Completed \<and> ev_status ev \<noteq> Cancelled \<and>
         \<not> list_ex (\<lambda>p. p_userId p = uid) (participants ev)) \<and>
      canParticipate ev uid = canParticipate (ev\<lparr>maxParticipants := None\<rparr>) uid) \<and>
   (castObjectId rid = Some eid \<and> events d eid = Some ev \<and> users d uid = Some u \<and>
      maxParticipants ev = Some 0 \<and>
      ev_isActive ev \<and> ev_status ev \<noteq> Completed \<and> ev_status ev \<noteq> Cancelled \<and>
      \<not> list_ex (\<lambda>p. p_userId p = uid) (participants ev) \<longrightarrow>
      (\<exists>dj ev'. participateInEvent now d rid uid = (Inr (ev_points ev), dj) \<and>
         events dj eid = Some ev' \<and>
         length (participants ev') = length (participants ev) + 1))"
proof (intro conjI impI)
  assume "maxParticipants ev = Some 0"
  then show "canParticipate ev uid =
        (ev_isActive ev \<and> ev_status ev \<noteq> Completed \<and> ev_status ev \<noteq> Cancelled \<and>
         \<not> list_ex (\<lambda>p. p_userId p = uid) (participants ev))"
    by (simp add: canParticipate_iff)
next
  assume "maxParticipants ev = Some 0"
  then show "canParticipate ev uid = canParticipate (ev\<lparr>maxParticipants := None\<rparr>) uid"
    by (simp add: canParticipate_iff)
next
  assume a: "castObjectId rid = Some eid \<and> events d eid = Some ev \<and> users d uid = Some u \<and>
      maxParticipants ev = Some 0 \<and>
      ev_isActive ev \<and> ev_status ev \<noteq> Completed \<and> ev_status ev \<noteq> Cancelled \<and>
      \<not> list_ex (\<lambda>p. p_userId p = uid) (participants ev)"
  then have "canParticipate ev uid" by (simp add: canParticipate_iff)
  with a show "\<exists>dj ev'. participateInEvent now d rid uid = (Inr (ev_points ev), dj) \<and>
         events dj eid = Some ev' \<and>
         length (participants ev') = length (participants ev) + 1"
    by (simp add: participateInEvent_def Let_def)
qed

theorem zero_maxParticipants_is_unlimited_witness:
  "\<exists>ev dj ev'. events crowded_db hackathonId = Some ev \<and> maxParticipants ev = Some 0 \<and>
      length (participants ev) = 2 \<and> canParticipate ev alexId \<and>
      participateInEvent 1000 crowded_db hackathonId alexId = (Inr 200, dj) \<and>
      events dj hackathonId = Some ev' \<and> length (participants ev') = 3"
proof -
  have h: "maxParticipants crowdedHackathon = Some 0" "ev_isActive crowdedHackathon"
    "ev_status crowdedHackathon \<noteq> Completed" "ev_status crowdedHackathon \<noteq> Cancelled"
    "\<not> list_ex (\<lambda>p. p_userId p = alexId) (participants crowdedHackathon)"
    by (simp_all add: demo_defs ids_differ)
  have l: "length (participants crowdedHackathon) = 2" "ev_points crowdedHackathon = 200"
    by (simp_all add: demo_defs)
  note T = zero_maxParticipants_is_unlimited [where ev = crowdedHackathon and uid = alexId
      and d = crowded_db and rid = hackathonId and eid = hackathonId and u = alex and now = 1000]
  from T [THEN conjunct1, rule_format, OF h(1)] h have can: "canParticipate crowdedHackathon alexId"
    by blast
  from T [THEN conjunct2, rule_format] cast_examples example_events example_users h
  obtain dj ev' where
    "participateInEvent 1000 crowded_db hackathonId alexId = (Inr (ev_points crowdedHackathon), dj)"
    "events dj hackathonId = Some ev'"
    "length (participants ev') = length (participants crowdedHackathon) + 1"
    by blast
  with l have "participateInEvent 1000 crowded_db hackathonId alexId = (Inr 200, dj)"
    "events dj hackathonId = Some ev'" "length (participants ev') = 3"
    by simp_all
  with example_events h(1) l(1) can show ?thesis by blast
qed

end
